theory Spec2Isabelle
  imports Complex_Main
begin

section \<open>The session controller of the RFSN dashboard (src/ui/app.js)\<close>

text \<open>
  The class \<open>RFSNApp\<close> of \<open>src/ui/app.js\<close> is embedded method by method. The object,
  the part of the page it reads and writes, and the part of the browser it registers
  callbacks with (interval timers, requests in flight, sockets) form one record that every
  method takes and returns. An \<open>async\<close> method is cut at its \<open>await\<close>: the part
  before it and the part after it are two functions, and the event loop runs other
  handlers in between.
\<close>

subsection \<open>JavaScript values and displayed text\<close>

text \<open>
  Values as \<open>JSON.parse\<close> and the object literals of the source produce them. Numbers
  are exact rationals: the rounding of IEEE doubles is not modelled. An object is the list
  of its properties in source order; a later binding of a name wins, as in JavaScript.
\<close>

datatype jsval =
    JUndefined
  | JNull
  | JBool bool
  | JNum rat
  | JStr string
  | JArr "jsval list"
  | JObj "(string \<times> jsval) list"

type_synonym jsobject = "(string \<times> jsval) list"

text \<open>\<open>obj.name\<close> on an object: \<open>undefined\<close> when the property is absent.\<close>

definition get :: "jsobject \<Rightarrow> string \<Rightarrow> jsval" where
  "get obj name = (case map_of (rev obj) name of None \<Rightarrow> JUndefined | Some v \<Rightarrow> v)"

datatype js_error = SyntaxError | TypeError

text \<open>
  Text shown on the page is kept unrendered: a template literal
  \<open>`Phase: ${data.phase}`\<close> is the list \<open>[Lit ''Phase: '', Interp v]\<close>, where
  \<open>Interp v\<close> stands for \<open>String(v)\<close> and \<open>Message e\<close> for the \<open>message\<close> that the
  engine gives the error \<open>e\<close>.
\<close>

datatype piece = Lit string | Interp jsval | Message js_error

type_synonym dom_text = "piece list"

text \<open>
  Whether \<open>String(v)\<close> returns. The conversion of an object calls its \<open>toString\<close>;
  an object that carries a property of that name holds a value there that cannot be
  called (no value of JSON can), and the conversion raises \<open>TypeError\<close>. Every other
  object converts through \<open>Object.prototype.toString\<close>. An array converts its elements
  in turn.
\<close>

fun stringable :: "jsval \<Rightarrow> bool" where
  "stringable (JArr vs) = list_all stringable vs"
| "stringable (JObj obj) = (map_of obj ''toString'' = None)"
| "stringable v = True"

text \<open>
  What an element shows after \<open>el.textContent = v\<close>: \<open>null\<close> and \<open>undefined\<close> give
  the empty text, every other value its string (for a value that converts; the
  assignment of another raises \<open>TypeError\<close> and assigns nothing).
\<close>

fun as_text :: "jsval \<Rightarrow> dom_text" where
  "as_text JUndefined = []"
| "as_text JNull = []"
| "as_text v = [Interp v]"

text \<open>UTF-8 bytes of the emoji that open some messages of the source.\<close>

definition check_mark :: string where
  "check_mark = [CHR 0xE2, CHR 0x9C, CHR 0x85]"

definition cross_mark :: string where
  "cross_mark = [CHR 0xE2, CHR 0x9D, CHR 0x8C]"

definition warning_sign :: string where
  "warning_sign = [CHR 0xE2, CHR 0x9A, CHR 0xA0, CHR 0xEF, CHR 0xB8, CHR 0x8F]"

subsection \<open>State\<close>

text \<open>The object that \<open>gatherConfig\<close> builds from the form.\<close>

record rfsn_config =
  repoUrl :: string
  repoBranch :: string
  problemStatement :: string
  githubToken :: string
  githubUsername :: string
  createPR :: bool
  commitChanges :: bool
  llmProvider :: string
  llmApiKey :: string
  llmModel :: string
  temperature :: jsval
  profile :: string
  maxSteps :: jsval
  maxTime :: jsval
  useTrace :: bool
  useRipgrep :: bool
  useSymbols :: bool
  useEmbeddings :: bool
  strategyDirect :: bool
  strategyTestDriven :: bool
  strategyEnsemble :: bool

text \<open>
  A callback registered with \<open>setInterval\<close>: the elapsed-time display of
  \<open>startTimer\<close>, or the tick of \<open>runSimulation\<close> together with the two variables
  \<open>phaseIndex\<close> and \<open>step\<close> that its closure owns.
\<close>

datatype interval = ElapsedTimer | Simulation nat nat

text \<open>One entry of the log container: time of day, level, message.\<close>

type_synonym log_entry = "int \<times> jsval \<times> dom_text"

text \<open>
  The fields of the object come first, under the names of the source; then the elements
  of the page that the methods touch; then the browser: the clock read by \<open>Date.now()\<close>
  (milliseconds), the table of live intervals with the next handle to hand out, the
  sockets that are not yet closed (with the flag set once \<open>close()\<close> was called), and
  the number of start and stop requests in flight. A handle is a positive number in a
  browser, so the test \<open>if (this.timerInterval)\<close> is a test for \<open>null\<close>.
  \<open>config = None\<close> is the \<open>{}\<close> of the constructor. \<open>form\<close> is the page's form, as \<open>gatherConfig\<close> reads it.
  \<open>notifications\<close> lists every notification shown so far (their removal after three
  seconds is not modelled).
\<close>

record app =
  config :: "rfsn_config option"
  isRunning :: bool
  startTime :: "int option"
  timerInterval :: "nat option"
  websocket :: "nat option"
  form :: rfsn_config
  startBtn_disabled :: bool
  stopBtn_disabled :: bool
  pauseBtn_disabled :: bool
  statusDot :: string
  statusText :: string
  activeTab :: string
  currentPhase :: dom_text
  stepsCompleted :: dom_text
  patchesTried :: dom_text
  progressFill :: dom_text
  elapsedTime :: "(int \<times> int) option"
  logContainer :: "log_entry list"
  notifications :: "(string \<times> string) list"
  clock :: int
  intervals :: "(nat \<times> interval) list"
  next_handle :: nat
  sockets :: "(nat \<times> bool) list"
  start_requests :: nat
  stop_requests :: nat

subsection \<open>Log, notifications, status\<close>

text \<open>The loop of \<open>addLog\<close> that keeps the last 100 entries.\<close>

fun trim_log :: "'a list \<Rightarrow> 'a list" where
  "trim_log l = (if length l > 100 then trim_log (tl l) else l)"

declare trim_log.simps [simp del]

text \<open>
  \<open>addLog\<close> for a level that converts to a string and a message that has been
  rendered: \<open>message\<close> is the text that \<open>escapeHtml(message)\<close> displays. The source
  converts the level and the message before it touches the page, so a call with a value
  of the payload that does not convert raises \<open>TypeError\<close> and changes nothing; the
  call sites that pass such values test \<^const>\<open>stringable\<close> first and render the
  message with \<^const>\<open>as_text\<close>.
\<close>

definition addLog :: "jsval \<Rightarrow> dom_text \<Rightarrow> app \<Rightarrow> app" where
  "addLog level message s =
     s\<lparr>logContainer := trim_log (logContainer s @ [(clock s, level, message)])\<rparr>"

definition clearLog :: "app \<Rightarrow> app" where
  "clearLog s = addLog (JStr ''info'') [Lit ''Log cleared''] (s\<lparr>logContainer := []\<rparr>)"

definition showNotification :: "string \<Rightarrow> string \<Rightarrow> app \<Rightarrow> app" where
  "showNotification message type s = s\<lparr>notifications := notifications s @ [(message, type)]\<rparr>"

definition updateStatus :: "string \<Rightarrow> string \<Rightarrow> app \<Rightarrow> app" where
  "updateStatus status txt s =
     s\<lparr>statusDot :=
         (case map_of [(''idle'', ''var(--success)''), (''running'', ''var(--primary)''),
                       (''error'', ''var(--danger)''), (''paused'', ''var(--warning)'')] status of
            Some colour \<Rightarrow> colour
          | None \<Rightarrow> ''var(--success)''),
       statusText := txt\<rparr>"

text \<open>A click on the tab with the given \<open>data-tab\<close> runs \<open>switchTab\<close>.\<close>

definition switchTab :: "string \<Rightarrow> app \<Rightarrow> app" where
  "switchTab tabName s = s\<lparr>activeTab := tabName\<rparr>"

subsection \<open>Timers and sockets of the browser\<close>

text \<open>\<open>setInterval\<close> hands out a fresh handle; \<open>clearInterval\<close> removes the entry.\<close>

definition setInterval :: "interval \<Rightarrow> app \<Rightarrow> nat \<times> app" where
  "setInterval callback s =
     (next_handle s,
      s\<lparr>intervals := intervals s @ [(next_handle s, callback)],
        next_handle := Suc (next_handle s)\<rparr>)"

definition clearInterval :: "nat \<Rightarrow> app \<Rightarrow> app" where
  "clearInterval h s = s\<lparr>intervals := filter (\<lambda>e. fst e \<noteq> h) (intervals s)\<rparr>"

text \<open>Assignment to the variables that the closure of a live interval owns.\<close>

definition set_closure :: "nat \<Rightarrow> interval \<Rightarrow> app \<Rightarrow> app" where
  "set_closure h callback s =
     s\<lparr>intervals := map (\<lambda>e. if fst e = h then (h, callback) else e) (intervals s)\<rparr>"

text \<open>\<open>new WebSocket(url)\<close> and \<open>socket.close()\<close>.\<close>

definition new_WebSocket :: "app \<Rightarrow> nat \<times> app" where
  "new_WebSocket s =
     (next_handle s,
      s\<lparr>sockets := sockets s @ [(next_handle s, False)], next_handle := Suc (next_handle s)\<rparr>)"

definition close :: "nat \<Rightarrow> app \<Rightarrow> app" where
  "close w s = s\<lparr>sockets := map (\<lambda>e. if fst e = w then (w, True) else e) (sockets s)\<rparr>"

subsection \<open>Configuration and validation\<close>

definition gatherConfig :: "app \<Rightarrow> rfsn_config" where
  "gatherConfig s = form s"

text \<open>The array \<open>errors\<close> of \<open>validateConfig\<close>; the empty string is the falsy one.\<close>

definition validation_errors :: "rfsn_config \<Rightarrow> string list" where
  "validation_errors c =
     (if repoUrl c = [] then [''Repository URL is required''] else []) @
     (if problemStatement c = [] then [''Problem statement is required''] else []) @
     (if llmApiKey c = [] then [''LLM API key is required''] else [])"

definition validateConfig :: "app \<Rightarrow> bool \<times> app" where
  "validateConfig s =
     (let errors = validation_errors (gatherConfig s) in
      if length errors > 0 then
        (False,
         showNotification (cross_mark @ '' Configuration errors. Check log.'') ''error''
           (fold (\<lambda>err. addLog (JStr ''error'') [Lit err]) errors s))
      else (True, s))"

subsection \<open>Progress, phase, completion\<close>

text \<open>
  A method that handles values of the payload either returns the new state (\<open>Inr\<close>) or
  raises an error (\<open>Inl\<close>), which comes with the state at the moment of the
  \<open>throw\<close>: what the method had changed by then stays changed.
\<close>

type_synonym outcome = "(js_error \<times> app) + app"

definition updatePhase :: "jsval \<Rightarrow> app \<Rightarrow> outcome" where
  "updatePhase phase s =
     (if \<not> stringable phase then Inl (TypeError, s)
      else Inr (s\<lparr>currentPhase := as_text phase\<rparr>))"

text \<open>
  \<open>progressFill\<close> holds the text last assigned to \<open>style.width\<close>.
\<close>

definition updateProgress :: "jsobject \<Rightarrow> app \<Rightarrow> outcome" where
  "updateProgress data s =
     (if get data ''steps'' \<noteq> JUndefined \<and>
         \<not> (stringable (get data ''current_step'') \<and> stringable (get data ''total_steps''))
      then Inl (TypeError, s)
      else
        (let s = (if get data ''steps'' \<noteq> JUndefined
                  then s\<lparr>stepsCompleted :=
                           [Interp (get data ''current_step''), Lit '' / '',
                            Interp (get data ''total_steps'')]\<rparr>
                  else s)
         in if get data ''patches'' \<noteq> JUndefined \<and> \<not> stringable (get data ''patches'')
            then Inl (TypeError, s)
            else
              (let s = (if get data ''patches'' \<noteq> JUndefined
                        then s\<lparr>patchesTried := as_text (get data ''patches'')\<rparr>
                        else s)
               in if get data ''progress'' \<noteq> JUndefined \<and>
                     \<not> stringable (get data ''progress'')
                  then Inl (TypeError, s)
                  else
                    Inr (if get data ''progress'' \<noteq> JUndefined
                         then s\<lparr>progressFill := [Interp (get data ''progress''), Lit ''%'']\<rparr>
                         else s))))"

definition cleanupAfterRun :: "app \<Rightarrow> app" where
  "cleanupAfterRun s =
     (let s = s\<lparr>isRunning := False\<rparr>;
          s = (case timerInterval s of
                 Some h \<Rightarrow> (clearInterval h s)\<lparr>timerInterval := None\<rparr>
               | None \<Rightarrow> s);
          s = (case websocket s of
                 Some w \<Rightarrow> (close w s)\<lparr>websocket := None\<rparr>
               | None \<Rightarrow> s);
          s = s\<lparr>startBtn_disabled := False, stopBtn_disabled := True,
                pauseBtn_disabled := True\<rparr>;
          s = updateStatus ''idle'' ''Ready'' s
      in addLog (JStr ''info'') [Lit ''Agent stopped''] s)"

text \<open>
  The two templates of \<open>handleTaskComplete\<close> convert \<open>data.success\<close> and
  \<open>data.time_taken\<close>; a \<open>TypeError\<close> there leaves the method after the log lines
  written so far, before \<open>cleanupAfterRun\<close>.
\<close>

definition handleTaskComplete :: "jsobject \<Rightarrow> app \<Rightarrow> outcome" where
  "handleTaskComplete data s =
     (let s = addLog (JStr ''success'') [Lit (check_mark @ '' Task completed!'')] s
      in if \<not> stringable (get data ''success'') then Inl (TypeError, s)
         else
           (let s = addLog (JStr ''info'')
                      [Lit ''Success: '', Interp (get data ''success'')] s
            in if \<not> stringable (get data ''time_taken'') then Inl (TypeError, s)
               else
                 (let s = addLog (JStr ''info'')
                            [Lit ''Time: '', Interp (get data ''time_taken''), Lit ''s''] s;
                      s = cleanupAfterRun s;
                      s = showNotification (check_mark @ '' Task completed!'') ''success'' s
                  in Inr (switchTab ''results'' s))))"

subsection \<open>The live channel\<close>

text \<open>
  The text of a frame (or of a response body), as \<open>JSON.parse\<close> sees it: text that it
  rejects with a \<open>SyntaxError\<close>, or the text of a value.
\<close>

datatype payload = NotJSON | JSONText jsval

definition JSON_parse :: "payload \<Rightarrow> js_error + jsval" where
  "JSON_parse p = (case p of NotJSON \<Rightarrow> Inl SyntaxError | JSONText v \<Rightarrow> Inr v)"

text \<open>
  \<open>value.name\<close> for a name that no prototype defines (\<open>type\<close>, \<open>task_id\<close>): a
  \<open>TypeError\<close> on \<open>null\<close> and \<open>undefined\<close>, the property on an object,
  \<open>undefined\<close> on every other value.
\<close>

definition property :: "jsval \<Rightarrow> string \<Rightarrow> js_error + jsval" where
  "property v name =
     (case v of
        JUndefined \<Rightarrow> Inl TypeError
      | JNull \<Rightarrow> Inl TypeError
      | JObj obj \<Rightarrow> Inr (get obj name)
      | _ \<Rightarrow> Inr JUndefined)"

text \<open>
  \<open>addLog(level, message)\<close> called with values of the payload: both are converted
  before the page is touched.
\<close>

definition addLog_values :: "jsval \<Rightarrow> jsval \<Rightarrow> app \<Rightarrow> outcome" where
  "addLog_values level message s =
     (if \<not> (stringable level \<and> stringable message) then Inl (TypeError, s)
      else Inr (addLog level (as_text message) s))"

text \<open>
  The \<open>switch\<close> on \<open>data.type\<close>. A case can only match when \<open>data\<close> is an object,
  so the handlers of the cases take the object. In the case \<open>phase\<close> the template of
  the log line converts the value that \<open>updatePhase\<close> has converted already.
\<close>

definition handleWebSocketMessage :: "jsval \<Rightarrow> app \<Rightarrow> outcome" where
  "handleWebSocketMessage data s =
     (case property data ''type'' of
        Inl e \<Rightarrow> Inl (e, s)
      | Inr type \<Rightarrow>
          (case data of
             JObj obj \<Rightarrow>
               (if type = JStr ''phase'' then
                  (case updatePhase (get obj ''phase'') s of
                     Inl thrown \<Rightarrow> Inl thrown
                   | Inr s \<Rightarrow>
                       Inr (addLog (JStr ''info'')
                              [Lit ''Phase: '', Interp (get obj ''phase'')] s))
                else if type = JStr ''log'' then
                  addLog_values (get obj ''level'') (get obj ''message'') s
                else if type = JStr ''progress'' then updateProgress obj s
                else if type = JStr ''complete'' then handleTaskComplete obj s
                else if type = JStr ''error'' then
                  addLog_values (JStr ''error'') (get obj ''message'') s
                else Inr s)
           | _ \<Rightarrow> Inr s))"

text \<open>The four callbacks that \<open>connectWebSocket\<close> installs on the socket.\<close>

definition onopen :: "app \<Rightarrow> app" where
  "onopen s = addLog (JStr ''success'') [Lit ''Connected to live updates''] s"

definition onmessage :: "payload \<Rightarrow> app \<Rightarrow> outcome" where
  "onmessage event_data s =
     (case JSON_parse event_data of
        Inl e \<Rightarrow> Inl (e, s)
      | Inr data \<Rightarrow> handleWebSocketMessage data s)"

definition onerror :: "app \<Rightarrow> app" where
  "onerror s =
     (addLog (JStr ''error'') [Lit ''WebSocket error, falling back to polling''] s)
       \<lparr>websocket := None\<rparr>"

definition onclose :: "app \<Rightarrow> app" where
  "onclose s = addLog (JStr ''info'') [Lit ''Live updates disconnected''] s"

text \<open>
  \<open>constructor_throws\<close> tells whether \<open>new WebSocket\<close> raises; the template of the
  URL raises when \<open>taskId\<close> does not convert. Both are caught by the \<open>catch\<close> of the
  method.
\<close>

definition connectWebSocket :: "jsval \<Rightarrow> bool \<Rightarrow> app \<Rightarrow> app" where
  "connectWebSocket taskId constructor_throws s =
     (if \<not> stringable taskId then
        addLog (JStr ''warning'') [Lit ''Could not connect WebSocket, using simulation''] s
      else if constructor_throws then
        addLog (JStr ''warning'') [Lit ''Could not connect WebSocket, using simulation''] s
      else (let (w, s) = new_WebSocket s in s\<lparr>websocket := Some w\<rparr>))"

subsection \<open>The simulation fallback\<close>

definition phases :: "string list" where
  "phases = [''INGEST'', ''LOCALIZE'', ''PLAN'', ''PATCH'', ''TEST'', ''DIAGNOSE'', ''FINALIZE'']"

definition messages :: "string list" where
  "messages =
     [''Analyzing repository structure...'',
      ''Running localization layers...'',
      ''Found 5 potential bug locations'',
      ''Generating patch candidates...'',
      ''Testing patch #1...'',
      ''Patch validation successful'',
      ''Running test suite...'']"

text \<open>\<open>array[i]\<close>: \<open>undefined\<close> out of range.\<close>

definition element :: "string list \<Rightarrow> nat \<Rightarrow> jsval" where
  "element array i = (if i < length array then JStr (array ! i) else JUndefined)"

text \<open>\<open>Date.now() - this.startTime\<close>, where \<open>null\<close> counts as 0, floored to seconds.\<close>

definition elapsed_seconds :: "app \<Rightarrow> int" where
  "elapsed_seconds s = (clock s - (case startTime s of None \<Rightarrow> 0 | Some t \<Rightarrow> t)) div 1000"

definition runSimulation :: "app \<Rightarrow> app" where
  "runSimulation s = snd (setInterval (Simulation 0 0) s)"

text \<open>
  The callback of the interval that \<open>runSimulation\<close> registers. \<open>h\<close> is the handle
  \<open>simulationInterval\<close>; \<open>phaseIndex\<close> and \<open>step\<close> are the closure's variables as the
  tick finds them; \<open>random_index\<close> is the value of
  \<open>Math.floor(Math.random() * messages.length)\<close> in this tick, a number from 0 to 6.
  On natural numbers \<open>Math.floor(step / 5)\<close> is \<open>step div 5\<close>. The result is the state
  in which the callback ends. An error raised by one of the three methods it calls
  would end it at that point, with the closure's variables as assigned by then; the
  values that the callback passes are strings, numbers and a boolean, which convert.
\<close>

definition simulation_tick :: "nat \<Rightarrow> nat \<Rightarrow> nat \<Rightarrow> nat \<Rightarrow> app \<Rightarrow> app" where
  "simulation_tick h phaseIndex step random_index s =
     (if \<not> isRunning s then clearInterval h s
      else
        (case (if step mod 3 = 0 \<and> phaseIndex < length phases then
                 (case updatePhase (element phases phaseIndex) s of
                    Inl thrown \<Rightarrow> Inl thrown
                  | Inr s \<Rightarrow>
                      Inr (phaseIndex + 1,
                           addLog (JStr ''info'')
                             [Lit ''Entering phase: '', Interp (element phases phaseIndex)] s))
               else Inr (phaseIndex, s)) of
           Inl (e, s) \<Rightarrow> s
         | Inr (phaseIndex, s) \<Rightarrow>
             (let step = step + 1;
                  progress = min (of_nat step / 30 * 100) (100 :: rat)
              in case updateProgress
                        [(''current_step'', JNum (of_nat step)),
                         (''total_steps'', JNum 30),
                         (''patches'', JNum (of_nat (step div 5))),
                         (''progress'', JNum progress)] s of
                   Inl (e, s) \<Rightarrow> set_closure h (Simulation phaseIndex step) s
                 | Inr s \<Rightarrow>
                     (let s = (if step mod 2 = 0
                               then addLog (JStr ''info'')
                                      (as_text (element messages random_index)) s
                               else s);
                          s = set_closure h (Simulation phaseIndex step) s
                      in if step \<ge> 30 then
                           (case handleTaskComplete
                                   [(''success'', JBool True),
                                    (''time_taken'', JNum (of_int (elapsed_seconds s)))]
                                   (clearInterval h s) of
                              Inl (e, s) \<Rightarrow> s
                            | Inr s \<Rightarrow> s)
                         else s))))"

subsection \<open>Start and stop\<close>

text \<open>
  The callback of \<open>startTimer\<close>. \<open>this.startTime\<close> is falsy when \<open>null\<close> or 0;
  \<open>%\<close> is the remainder that takes the sign of the dividend.
\<close>

definition js_rem :: "int \<Rightarrow> int \<Rightarrow> int" where
  "js_rem a b = sgn a * (\<bar>a\<bar> mod \<bar>b\<bar>)"

definition timer_tick :: "app \<Rightarrow> app" where
  "timer_tick s =
     (case startTime s of
        None \<Rightarrow> s
      | Some t \<Rightarrow>
          if t = 0 then s
          else (let elapsed = (clock s - t) div 1000;
                    minutes = elapsed div 60;
                    seconds = js_rem elapsed 60
                in s\<lparr>elapsedTime := Some (minutes, seconds)\<rparr>))"

definition startTimer :: "app \<Rightarrow> app" where
  "startTimer s = (let (h, s) = setInterval ElapsedTimer s in s\<lparr>timerInterval := Some h\<rparr>)"

text \<open>
  \<open>startAgent\<close> up to its first \<open>await\<close>. The outcome tells which \<open>return\<close> was
  taken, or that the start request was sent.
\<close>

datatype start_outcome = ValidationFailed | AlreadyRunning | StartRequested

definition startAgent_begin :: "app \<Rightarrow> start_outcome \<times> app" where
  "startAgent_begin s =
     (let (valid, s) = validateConfig s in
      if \<not> valid then (ValidationFailed, s)
      else if isRunning s then
        (AlreadyRunning,
         showNotification (warning_sign @ '' Agent is already running'') ''warning'' s)
      else
        (let c = gatherConfig s;
             s = s\<lparr>config := Some c, isRunning := True, startTime := Some (clock s)\<rparr>;
             s = s\<lparr>startBtn_disabled := True, stopBtn_disabled := False,
                   pauseBtn_disabled := False\<rparr>;
             s = updateStatus ''running'' ''Running'' s;
             s = switchTab ''process'' s;
             s = clearLog s;
             s = addLog (JStr ''info'') [Lit ''Starting RFSN Agent...''] s;
             s = addLog (JStr ''info'') [Lit ''Repository: '', Interp (JStr (repoUrl c))] s;
             s = addLog (JStr ''info'') [Lit ''Profile: '', Interp (JStr (profile c))] s;
             s = addLog (JStr ''info'')
                   [Lit ''Max Steps: '', Interp (maxSteps c), Lit '', Max Time: '',
                    Interp (maxTime c), Lit '' minutes''] s;
             s = startTimer s
         in (StartRequested, s\<lparr>start_requests := Suc (start_requests s)\<rparr>)))"

text \<open>
  How the start request ends: \<open>fetch\<close> rejects (with the message of its error), or a
  response arrives with a status and a body.
\<close>

datatype start_response = NetworkFailure string | HttpResponse nat payload

text \<open>The \<open>catch\<close> block of \<open>startAgent\<close>; the argument is \<open>error.message\<close>.\<close>

definition simulation_fallback :: "dom_text \<Rightarrow> app \<Rightarrow> app" where
  "simulation_fallback error_message s =
     (let s = addLog (JStr ''error'') (Lit ''Failed to start agent: '' # error_message) s;
          s = addLog (JStr ''warning'')
                [Lit ''Running in simulation mode (backend not available)''] s
      in runSimulation s)"

text \<open>
  \<open>startAgent\<close> from the moment its request has ended; \<open>response.ok\<close> is a status
  from 200 to 299. Every error raised inside the \<open>try\<close> reaches the \<open>catch\<close>: a
  rejected request, a status that is not ok, a body that is not JSON, a body that is
  \<open>null\<close>, a task id that the template of the log line cannot convert.
\<close>

definition startAgent_resume :: "start_response \<Rightarrow> bool \<Rightarrow> app \<Rightarrow> app" where
  "startAgent_resume response constructor_throws s =
     (let s = s\<lparr>start_requests := start_requests s - 1\<rparr> in
      case response of
        NetworkFailure m \<Rightarrow> simulation_fallback [Lit m] s
      | HttpResponse status body \<Rightarrow>
          if \<not> (200 \<le> status \<and> status \<le> 299) then
            simulation_fallback [Lit ''Server returned '', Interp (JNum (of_nat status))] s
          else
            (case JSON_parse body of
               Inl e \<Rightarrow> simulation_fallback [Message e] s
             | Inr data \<Rightarrow>
                 (case property data ''task_id'' of
                    Inl e \<Rightarrow> simulation_fallback [Message e] s
                  | Inr task_id \<Rightarrow>
                      if \<not> stringable task_id then simulation_fallback [Message TypeError] s
                      else
                        connectWebSocket task_id constructor_throws
                          (addLog (JStr ''success'')
                             [Lit ''Agent started successfully. Task ID: '', Interp task_id]
                             s))))"

text \<open>\<open>stopAgent\<close> up to its \<open>await\<close>, and from the moment the stop request has ended
  (\<open>sent\<close> tells whether \<open>fetch\<close> resolved).\<close>

datatype stop_outcome = NotRunning | StopRequested

definition stopAgent_begin :: "app \<Rightarrow> stop_outcome \<times> app" where
  "stopAgent_begin s =
     (if \<not> isRunning s then (NotRunning, s)
      else
        (let s = addLog (JStr ''warning'') [Lit ''Stopping agent...''] s
         in (StopRequested, s\<lparr>stop_requests := Suc (stop_requests s)\<rparr>)))"

definition stopAgent_resume :: "bool \<Rightarrow> app \<Rightarrow> app" where
  "stopAgent_resume sent s =
     (let s = s\<lparr>stop_requests := stop_requests s - 1\<rparr>;
          s = (if sent then addLog (JStr ''info'') [Lit ''Stop signal sent to agent''] s
               else addLog (JStr ''warning'')
                      [Lit ''Could not reach backend, stopping locally''] s)
      in cleanupAfterRun s)"

subsection \<open>The event loop\<close>

text \<open>
  What can happen to the page, one handler at a time: time passes, \<open>startAgent()\<close> or
  \<open>stopAgent()\<close> is called, a request in flight ends, an interval fires (with the random
  draw of that tick), a socket reports. \<open>step\<close> is \<open>None\<close> for an event that the state
  makes impossible: a response to a request that was never sent, a tick of a cleared
  interval, a message on a socket after \<open>close()\<close>. An exception that escapes
  \<open>onmessage\<close> ends that handler only: the page goes on from the state at the
  \<open>throw\<close>.
\<close>

datatype event =
    Elapse nat
  | Start
  | Stop
  | StartSettled start_response bool
  | StopSettled bool
  | Fire nat nat
  | SocketOpen nat
  | SocketMessage nat payload
  | SocketError nat
  | SocketClose nat

definition fire :: "nat \<Rightarrow> nat \<Rightarrow> app \<Rightarrow> app" where
  "fire h random_index s =
     (case map_of (intervals s) h of
        None \<Rightarrow> s
      | Some ElapsedTimer \<Rightarrow> timer_tick s
      | Some (Simulation phaseIndex step) \<Rightarrow> simulation_tick h phaseIndex step random_index s)"

fun step :: "event \<Rightarrow> app \<Rightarrow> app option" where
  "step (Elapse ms) s = Some (s\<lparr>clock := clock s + int ms\<rparr>)"
| "step Start s = Some (snd (startAgent_begin s))"
| "step Stop s = Some (snd (stopAgent_begin s))"
| "step (StartSettled response constructor_throws) s =
     (if start_requests s > 0 then Some (startAgent_resume response constructor_throws s)
      else None)"
| "step (StopSettled sent) s =
     (if stop_requests s > 0 then Some (stopAgent_resume sent s) else None)"
| "step (Fire h random_index) s =
     (if map_of (intervals s) h = None then None else Some (fire h random_index s))"
| "step (SocketOpen w) s =
     (if map_of (sockets s) w = Some False then Some (onopen s) else None)"
| "step (SocketMessage w event_data) s =
     (if map_of (sockets s) w = Some False then
        (case onmessage event_data s of Inl (e, s') \<Rightarrow> Some s' | Inr s' \<Rightarrow> Some s')
      else None)"
| "step (SocketError w) s =
     (if map_of (sockets s) w = None then None else Some (onerror s))"
| "step (SocketClose w) s =
     (if map_of (sockets s) w = None then None
      else Some (onclose (s\<lparr>sockets := filter (\<lambda>e. fst e \<noteq> w) (sockets s)\<rparr>)))"

fun run :: "event list \<Rightarrow> app \<Rightarrow> app option" where
  "run [] s = Some s"
| "run (e # es) s = (case step e s of None \<Rightarrow> None | Some s' \<Rightarrow> run es s')"

text \<open>
  The page after \<open>new RFSNApp()\<close> with nothing saved, showing the given form. The
  markup of the page is not part of the sources: its texts are empty here, and the
  buttons and the status are as \<open>cleanupAfterRun\<close> leaves them.
\<close>

definition loaded_page :: "rfsn_config \<Rightarrow> app" where
  "loaded_page f =
     \<lparr>config = None, isRunning = False, startTime = None, timerInterval = None,
      websocket = None, form = f,
      startBtn_disabled = False, stopBtn_disabled = True, pauseBtn_disabled = True,
      statusDot = ''var(--success)'', statusText = ''Ready'', activeTab = ''config'',
      currentPhase = [], stepsCompleted = [], patchesTried = [], progressFill = [],
      elapsedTime = None, logContainer = [], notifications = [],
      clock = 0, intervals = [], next_handle = 1, sockets = [],
      start_requests = 0, stop_requests = 0\<rparr>"

definition empty_form :: rfsn_config where
  "empty_form =
     \<lparr>repoUrl = [], repoBranch = ''main'', problemStatement = [], githubToken = [],
      githubUsername = [], createPR = False, commitChanges = False,
      llmProvider = ''deepseek'', llmApiKey = [], llmModel = [],
      temperature = JNum (1 / 5), profile = ''swebench_lite'',
      maxSteps = JNum 50, maxTime = JNum 30,
      useTrace = True, useRipgrep = True, useSymbols = True, useEmbeddings = False,
      strategyDirect = True, strategyTestDriven = True, strategyEnsemble = False\<rparr>"

definition filled_form :: rfsn_config where
  "filled_form =
     empty_form\<lparr>repoUrl := ''https://github.com/o/r'', problemStatement := ''fix it'',
                llmApiKey := ''k''\<rparr>"

subsection \<open>Vocabulary of the properties\<close>

text \<open>The last \<open>n\<close> entries of a list.\<close>

definition recent :: "nat \<Rightarrow> 'a list \<Rightarrow> 'a list" where
  "recent n l = drop (length l - n) l"

text \<open>The notification that \<open>handleTaskComplete\<close> shows.\<close>

definition completed :: "string \<times> string" where
  "completed = (check_mark @ '' Task completed!'', ''success'')"

text \<open>
  A malformed frame: text that is not JSON, or JSON without a \<open>type\<close> property
  (an object that lacks it, or a value that is no object at all).
\<close>

definition malformed :: "payload \<Rightarrow> bool" where
  "malformed p =
     (case p of
        NotJSON \<Rightarrow> True
      | JSONText (JObj obj) \<Rightarrow> get obj ''type'' = JUndefined
      | JSONText _ \<Rightarrow> True)"

text \<open>
  The interval \<open>h\<close> fires once for every entry of the list, after the given number of
  milliseconds and with the given random draw, and nothing else happens in between.
\<close>

fun ticks :: "nat \<Rightarrow> (nat \<times> nat) list \<Rightarrow> app \<Rightarrow> app" where
  "ticks h [] s = s"
| "ticks h ((ms, random_index) # rest) s =
     ticks h rest (fire h random_index (s\<lparr>clock := clock s + int ms\<rparr>))"

text \<open>The events that are the passing of time and the firing of intervals.\<close>

definition timer_event :: "event \<Rightarrow> bool" where
  "timer_event e = (case e of Elapse ms \<Rightarrow> True | Fire h r \<Rightarrow> True | _ \<Rightarrow> False)"

text \<open>
  Sample inputs: the response of a backend that accepts the task, a \<open>complete\<close> frame,
  and three sessions on a page with a valid form. In \<open>live_session\<close> the backend has
  answered and the socket (handle 2) is connected. In \<open>simulated_session\<close> the start
  request has failed and the simulation (handle 2) is registered. In
  \<open>cancelled_session\<close> \<open>stopAgent()\<close> was called right after \<open>startAgent()\<close>,
  both requests failed, the stop request first: the simulation is registered on a
  session that is no longer running. In \<open>late_session\<close> the stop request ended
  first as well and the backend then accepted the task: the socket (handle 2) is
  connected on a session that is no longer running.
\<close>

definition task_response :: start_response where
  "task_response = HttpResponse 200 (JSONText (JObj [(''task_id'', JStr ''t1'')]))"

definition complete_frame :: payload where
  "complete_frame =
     JSONText (JObj [(''type'', JStr ''complete''), (''success'', JBool True),
                     (''time_taken'', JNum 1)])"

definition live_session :: app where
  "live_session =
     startAgent_resume task_response False (snd (startAgent_begin (loaded_page filled_form)))"

definition simulated_session :: app where
  "simulated_session =
     startAgent_resume (NetworkFailure ''Failed to fetch'') False
       (snd (startAgent_begin (loaded_page filled_form)))"

definition cancelled_session :: app where
  "cancelled_session =
     startAgent_resume (NetworkFailure ''Failed to fetch'') False
       (stopAgent_resume False
          (snd (stopAgent_begin (snd (startAgent_begin (loaded_page filled_form))))))"

definition late_session :: app where
  "late_session =
     startAgent_resume task_response False
       (stopAgent_resume True
          (snd (stopAgent_begin (snd (startAgent_begin (loaded_page filled_form))))))"

section \<open>Properties\<close>

subsection \<open>The log\<close>

lemma trim_log_drop: "trim_log l = drop (length l - 100) l"
proof (induction l rule: trim_log.induct)
  case (1 l)
  show ?case
  proof (cases "length l > 100")
    case True
    then have "trim_log l = trim_log (tl l)" by (subst trim_log.simps) simp
    also have "\<dots> = drop (length (tl l) - 100) (tl l)" using 1 True by simp
    also have "\<dots> = drop (length l - 100) l"
    proof (cases l)
      case Nil
      with True show ?thesis by simp
    next
      case (Cons a list)
      with True have "length l - 100 = Suc (length list - 100)" by simp
      with Cons show ?thesis by simp
    qed
    finally show ?thesis .
  next
    case False
    then show ?thesis by (subst trim_log.simps) simp
  qed
qed

lemma recent_trim_log: "n \<le> 100 \<Longrightarrow> recent n (trim_log l) = recent n l"
proof -
  assume "n \<le> 100"
  then have "length l - (length l - 100 + n) + (length l - 100) = length l - n" by arith
  then show ?thesis by (simp add: recent_def trim_log_drop)
qed

lemma recent_snoc: "recent (Suc n) (xs @ [x]) = recent n xs @ [x]"
  by (simp add: recent_def Suc_diff_le)

lemma recent_0: "recent 0 l = []"
  by (simp add: recent_def)

lemma recent_addLog:
  "n < 100 \<Longrightarrow>
   recent (Suc n) (logContainer (addLog l m s)) = recent n (logContainer s) @ [(clock s, l, m)]"
  by (simp add: addLog_def recent_trim_log recent_snoc)

subsection \<open>What each method leaves alone\<close>

lemma addLog_fields [simp]:
  "isRunning (addLog l m s) = isRunning s"
  "notifications (addLog l m s) = notifications s"
  "clock (addLog l m s) = clock s"
  "timerInterval (addLog l m s) = timerInterval s"
  "websocket (addLog l m s) = websocket s"
  "intervals (addLog l m s) = intervals s"
  "startTime (addLog l m s) = startTime s"
  by (simp_all add: addLog_def)

lemma stringable_element [simp]: "stringable (element array i)"
  by (simp add: element_def)

lemma updatePhase_element:
  "updatePhase (element array i) s = Inr (s\<lparr>currentPhase := as_text (element array i)\<rparr>)"
  by (simp add: updatePhase_def)

text \<open>The call of \<open>updateProgress\<close> in the simulation: four numbers, no \<open>steps\<close>.\<close>

lemma updateProgress_simulation:
  "updateProgress
     [(''current_step'', JNum a), (''total_steps'', JNum b), (''patches'', JNum c),
      (''progress'', JNum d)] s =
   Inr (s\<lparr>patchesTried := [Interp (JNum c)], progressFill := [Interp (JNum d), Lit ''%'']\<rparr>)"
  by (simp add: updateProgress_def get_def)

lemma set_closure_fields [simp]:
  "isRunning (set_closure h c s) = isRunning s"
  "notifications (set_closure h c s) = notifications s"
  "clock (set_closure h c s) = clock s"
  "startTime (set_closure h c s) = startTime s"
  "logContainer (set_closure h c s) = logContainer s"
  "timerInterval (set_closure h c s) = timerInterval s"
  by (simp_all add: set_closure_def)

lemma clearInterval_fields [simp]:
  "isRunning (clearInterval h s) = isRunning s"
  "notifications (clearInterval h s) = notifications s"
  "clock (clearInterval h s) = clock s"
  "startTime (clearInterval h s) = startTime s"
  "logContainer (clearInterval h s) = logContainer s"
  by (simp_all add: clearInterval_def)

lemma cleanupAfterRun_fields:
  "\<not> isRunning (cleanupAfterRun s)"
  "timerInterval (cleanupAfterRun s) = None"
  "websocket (cleanupAfterRun s) = None"
  "notifications (cleanupAfterRun s) = notifications s"
  "clock (cleanupAfterRun s) = clock s"
  "startTime (cleanupAfterRun s) = startTime s"
  by (simp_all add: cleanupAfterRun_def Let_def clearInterval_def close_def updateStatus_def
        split: option.splits)

lemma cleanupAfterRun_recent:
  "n < 100 \<Longrightarrow>
   recent (Suc n) (logContainer (cleanupAfterRun s)) =
     recent n (logContainer s) @ [(clock s, JStr ''info'', [Lit ''Agent stopped''])]"
  by (simp add: cleanupAfterRun_def Let_def clearInterval_def close_def updateStatus_def
        addLog_def recent_trim_log recent_snoc split: option.splits)

lemma cleanupAfterRun_released:
  "intervals (cleanupAfterRun s) =
     intervals (case timerInterval s of None \<Rightarrow> s | Some h \<Rightarrow> clearInterval h s)"
  "sockets (cleanupAfterRun s) =
     sockets (case websocket s of None \<Rightarrow> s | Some w \<Rightarrow> close w s)"
  "startBtn_disabled (cleanupAfterRun s) = False"
  "stopBtn_disabled (cleanupAfterRun s) = True"
  "pauseBtn_disabled (cleanupAfterRun s) = True"
  "statusText (cleanupAfterRun s) = ''Ready''"
  by (simp_all add: cleanupAfterRun_def Let_def clearInterval_def close_def updateStatus_def
        addLog_def split: option.splits)

text \<open>
  \<open>handleTaskComplete\<close> on a payload whose two values convert: it returns, and this
  is the state it returns.
\<close>

lemma handleTaskComplete_returns:
  assumes "stringable (get obj ''success'')" and "stringable (get obj ''time_taken'')"
  shows "\<exists>s'. handleTaskComplete obj s = Inr s' \<and>
           \<not> isRunning s' \<and> timerInterval s' = None \<and> websocket s' = None \<and>
           intervals s' =
             intervals (case timerInterval s of None \<Rightarrow> s | Some h \<Rightarrow> clearInterval h s) \<and>
           sockets s' = sockets (case websocket s of None \<Rightarrow> s | Some w \<Rightarrow> close w s) \<and>
           startBtn_disabled s' = False \<and> stopBtn_disabled s' = True \<and>
           pauseBtn_disabled s' = True \<and> statusText s' = ''Ready'' \<and>
           activeTab s' = ''results'' \<and>
           notifications s' = notifications s @ [completed] \<and>
           recent 4 (logContainer s') =
             [(clock s, JStr ''success'', [Lit (check_mark @ '' Task completed!'')]),
              (clock s, JStr ''info'', [Lit ''Success: '', Interp (get obj ''success'')]),
              (clock s, JStr ''info'',
                 [Lit ''Time: '', Interp (get obj ''time_taken''), Lit ''s'']),
              (clock s, JStr ''info'', [Lit ''Agent stopped''])]"
proof -
  have four: "(4::nat) = Suc (Suc (Suc (Suc 0)))" by simp
  let ?logged =
    "addLog (JStr ''info'') [Lit ''Time: '', Interp (get obj ''time_taken''), Lit ''s'']
       (addLog (JStr ''info'') [Lit ''Success: '', Interp (get obj ''success'')]
          (addLog (JStr ''success'') [Lit (check_mark @ '' Task completed!'')] s))"
  let ?s' = "switchTab ''results''
               (showNotification (check_mark @ '' Task completed!'') ''success''
                  (cleanupAfterRun ?logged))"
  have ret: "handleTaskComplete obj s = Inr ?s'"
    using assms by (simp add: handleTaskComplete_def Let_def)
  have fields: "timerInterval ?logged = timerInterval s" "websocket ?logged = websocket s"
    "intervals ?logged = intervals s" "sockets ?logged = sockets s"
    by (simp_all add: addLog_def)
  have rel: "intervals (cleanupAfterRun ?logged) =
               intervals (case timerInterval s of None \<Rightarrow> s | Some h \<Rightarrow> clearInterval h s)"
            "sockets (cleanupAfterRun ?logged) =
               sockets (case websocket s of None \<Rightarrow> s | Some w \<Rightarrow> close w s)"
    unfolding cleanupAfterRun_released fields
    by (simp_all add: clearInterval_def close_def addLog_def split: option.splits)
  have log: "recent 4 (logContainer ?s') =
             [(clock s, JStr ''success'', [Lit (check_mark @ '' Task completed!'')]),
              (clock s, JStr ''info'', [Lit ''Success: '', Interp (get obj ''success'')]),
              (clock s, JStr ''info'',
                 [Lit ''Time: '', Interp (get obj ''time_taken''), Lit ''s'']),
              (clock s, JStr ''info'', [Lit ''Agent stopped''])]"
    unfolding four
    by (simp add: switchTab_def showNotification_def cleanupAfterRun_recent recent_addLog
          recent_0)
  show ?thesis
    unfolding ret
    using rel log
    by (simp add: switchTab_def showNotification_def cleanupAfterRun_fields
          cleanupAfterRun_released(3-6) completed_def)
qed

text \<open>
  \<open>handleTaskComplete\<close> on a payload whose \<open>success\<close> does not convert: the first
  log line is written, then \<open>TypeError\<close>; no cleanup has run.
\<close>

lemma handleTaskComplete_throws:
  assumes "\<not> stringable (get obj ''success'')"
  shows "handleTaskComplete obj s =
           Inl (TypeError,
                addLog (JStr ''success'') [Lit (check_mark @ '' Task completed!'')] s)"
  using assms by (simp add: handleTaskComplete_def Let_def)

subsection \<open>The sample sessions\<close>

lemmas handler_defs =
  addLog_def clearLog_def showNotification_def updateStatus_def switchTab_def
  setInterval_def clearInterval_def set_closure_def new_WebSocket_def close_def
  gatherConfig_def validateConfig_def validation_errors_def updatePhase_def updateProgress_def
  cleanupAfterRun_def handleTaskComplete_def JSON_parse_def property_def
  addLog_values_def handleWebSocketMessage_def onopen_def onmessage_def onerror_def onclose_def
  connectWebSocket_def element_def elapsed_seconds_def runSimulation_def
  simulation_tick_def timer_tick_def startTimer_def startAgent_begin_def
  simulation_fallback_def startAgent_resume_def stopAgent_begin_def stopAgent_resume_def
  fire_def get_def

lemmas sample_defs =
  loaded_page_def filled_form_def empty_form_def live_session_def simulated_session_def
  cancelled_session_def late_session_def task_response_def complete_frame_def completed_def
  handler_defs trim_log_drop Let_def

lemma loaded_page_fields:
  "\<not> isRunning (loaded_page f)" "form (loaded_page f) = f"
  "notifications (loaded_page f) = []"
  by (simp_all add: loaded_page_def)

lemma empty_form_fields:
  "repoUrl empty_form = []" "problemStatement empty_form = []" "llmApiKey empty_form = []"
  by (simp_all add: empty_form_def)

lemma live_session_fields:
  "isRunning live_session" "map_of (sockets live_session) 2 = Some False"
  "validation_errors (form live_session) = []"
  by (simp_all add: sample_defs)

lemma simulated_session_fields:
  "isRunning simulated_session"
  "map_of (intervals simulated_session) 2 = Some (Simulation 0 0)"
  by (simp_all add: sample_defs)

lemma late_session_fields:
  "\<not> isRunning late_session" "websocket late_session = Some 2"
  "sockets late_session = [(2, False)]" "timerInterval late_session = None"
  "notifications late_session = []"
  by (simp_all add: sample_defs)

lemma cancelled_session_fields:
  "\<not> isRunning cancelled_session"
  "map_of (intervals cancelled_session) 2 = Some (Simulation 0 0)"
  "notifications cancelled_session = []"
  by (simp_all add: sample_defs)

subsection \<open>Progress events\<close>

text \<open>
  C1. The claim: a progress event carrying only \<open>patches = 2\<close>, followed by one carrying
  only \<open>current_step = 5\<close>, leaves the page showing both. The code does not do that.
  \<open>updateProgress\<close> writes the step counter under the test \<open>data.steps !== undefined\<close>,
  and no message of the documented schema (nor the object that \<open>runSimulation\<close> passes)
  has a property \<open>steps\<close>. On every state the first frame sets \<open>patchesTried\<close> to 2,
  and the second frame changes nothing: \<open>stepsCompleted\<close> never shows the 5.
\<close>

theorem progress_current_step_ignored:
  "handleWebSocketMessage
     (JObj [(''type'', JStr ''progress''), (''patches'', JNum 2)]) s =
     Inr (s\<lparr>patchesTried := [Interp (JNum 2)]\<rparr>) \<and>
   handleWebSocketMessage
     (JObj [(''type'', JStr ''progress''), (''current_step'', JNum 5)])
     (s\<lparr>patchesTried := [Interp (JNum 2)]\<rparr>) =
     Inr (s\<lparr>patchesTried := [Interp (JNum 2)]\<rparr>)"
  by (simp add: handleWebSocketMessage_def property_def updateProgress_def get_def)

subsection \<open>Malformed frames\<close>

text \<open>
  C2, as stated, fails: the claim has a malformed frame produce a logged error and never
  an exception that leaves the handler. On the running session \<open>live_session\<close> a frame
  that is not JSON makes \<open>onmessage\<close> raise \<open>SyntaxError\<close> (there is no \<open>try\<close>
  around \<open>JSON.parse\<close>), and the log after the frame is the log before it.
\<close>

theorem malformed_frame_escapes_handler:
  "isRunning live_session \<and>
   onmessage NotJSON live_session = Inl (SyntaxError, live_session) \<and>
   map_option logContainer (step (SocketMessage 2 NotJSON) live_session) =
     Some (logContainer live_session)"
  by (simp add: live_session_fields onmessage_def JSON_parse_def)

text \<open>
  C2, amended: a malformed frame never ends the session, because it changes nothing at
  all. Text that is not JSON raises \<open>SyntaxError\<close> out of \<open>onmessage\<close>, the JSON text
  \<open>null\<close> raises \<open>TypeError\<close>, every other payload without \<open>type\<close> is ignored by the
  \<open>switch\<close>; in each case the state after the frame is the state before it: the session
  keeps running if it was, and no error is logged.
\<close>

theorem malformed_frame_changes_nothing:
  "onmessage NotJSON s = Inl (SyntaxError, s) \<and>
   onmessage (JSONText JNull) s = Inl (TypeError, s) \<and>
   (malformed p \<longrightarrow> onmessage p s \<in> {Inl (SyntaxError, s), Inl (TypeError, s), Inr s}) \<and>
   (malformed p \<longrightarrow> map_of (sockets s) w = Some False \<longrightarrow>
      step (SocketMessage w p) s = Some s)"
  by (simp add: onmessage_def JSON_parse_def handleWebSocketMessage_def property_def
        malformed_def split: payload.splits jsval.splits)

theorem malformed_frame_changes_nothing_witness:
  "malformed (JSONText (JObj [(''phase'', JStr ''PLAN'')])) \<and>
   map_of (sockets live_session) 2 = Some False \<and>
   step (SocketMessage 2 (JSONText (JObj [(''phase'', JStr ''PLAN'')]))) live_session =
     Some live_session"
  using malformed_frame_changes_nothing
          [of live_session "JSONText (JObj [(''phase'', JStr ''PLAN'')])" 2]
  by (simp add: malformed_def get_def live_session_fields)

subsection \<open>Stopping\<close>

text \<open>
  C3, as stated, fails: the claim has \<open>stop()\<close> leave Running before its request ends,
  so that a second call finds the session stopped. In the code \<open>isRunning\<close> is cleared by
  \<open>cleanupAfterRun\<close>, which runs after \<open>await fetch\<close>. After \<open>startAgent()\<close> and
  \<open>stopAgent()\<close> the session is still running, and a second \<open>stopAgent()\<close> sends a
  second stop request.
\<close>

theorem stop_still_running_in_flight:
  "map_option isRunning (run [Start, Stop] (loaded_page filled_form)) = Some True \<and>
   map_option stop_requests (run [Start, Stop, Stop] (loaded_page filled_form)) = Some 2"
  by (simp add: sample_defs)

text \<open>
  C3, amended: \<open>stopAgent()\<close> on a running session logs, sends the stop request and
  leaves \<open>isRunning\<close> set while the request is in flight; a second call made in that
  time finds the session running and sends a request of its own. \<open>isRunning\<close> is
  cleared when the request has ended, whether it was sent or failed.
\<close>

theorem stop_flips_after_request:
  assumes "isRunning s"
  shows "fst (stopAgent_begin s) = StopRequested \<and>
         isRunning (snd (stopAgent_begin s)) \<and>
         fst (stopAgent_begin (snd (stopAgent_begin s))) = StopRequested \<and>
         stop_requests (snd (stopAgent_begin (snd (stopAgent_begin s)))) = stop_requests s + 2 \<and>
         \<not> isRunning (stopAgent_resume sent (snd (stopAgent_begin s)))"
  using assms
  by (simp add: stopAgent_begin_def stopAgent_resume_def Let_def cleanupAfterRun_fields
        addLog_def)

theorem stop_flips_after_request_witness:
  "isRunning live_session \<and>
   isRunning (snd (stopAgent_begin live_session)) \<and>
   \<not> isRunning (stopAgent_resume True (snd (stopAgent_begin live_session)))"
  using stop_flips_after_request [of live_session True]
  by (simp add: live_session_fields)

text \<open>
  C6, as stated, fails: the claim has a \<open>stop()\<close> called twice in a row perform no
  teardown the second time. Two calls of \<open>stopAgent()\<close> in a row both pass the test
  of \<open>isRunning\<close>, since the first is still waiting for its request; when the two
  requests have ended, \<open>cleanupAfterRun\<close> has run twice, and the log ends with the
  lines of two teardowns.
\<close>

theorem stop_twice_tears_down_twice:
  "map_option (recent 4)
     (map_option logContainer
        (run [Start, Stop, Stop, StopSettled True, StopSettled True]
           (loaded_page filled_form))) =
   Some [(0, JStr ''info'', [Lit ''Stop signal sent to agent'']),
         (0, JStr ''info'', [Lit ''Agent stopped'']),
         (0, JStr ''info'', [Lit ''Stop signal sent to agent'']),
         (0, JStr ''info'', [Lit ''Agent stopped''])]"
  by (simp add: sample_defs recent_def)

text \<open>
  C6, amended: \<open>stopAgent()\<close> on a session that is not running returns at once, with
  no exception: the state is the same and no request is sent. So it is after a stop
  that has finished: whatever the state in which the stop request ends,
  \<open>cleanupAfterRun\<close> leaves the session not running, and the next \<open>stopAgent()\<close>
  does nothing.
\<close>

theorem stop_noop_when_not_running:
  "(\<not> isRunning s \<longrightarrow> stopAgent_begin s = (NotRunning, s) \<and> step Stop s = Some s) \<and>
   stopAgent_begin (stopAgent_resume sent s) = (NotRunning, stopAgent_resume sent s) \<and>
   step Stop (stopAgent_resume sent s) = Some (stopAgent_resume sent s)"
  by (simp add: stopAgent_begin_def stopAgent_resume_def Let_def cleanupAfterRun_fields)

theorem stop_noop_when_not_running_witness:
  "\<not> isRunning (loaded_page empty_form) \<and>
   stopAgent_begin (loaded_page empty_form) = (NotRunning, loaded_page empty_form) \<and>
   step Stop (loaded_page empty_form) = Some (loaded_page empty_form)"
  using stop_noop_when_not_running [of "loaded_page empty_form"]
  by (simp add: loaded_page_fields)

subsection \<open>Starting\<close>

lemma fold_addLog_log:
  "(fold (\<lambda>err. addLog l [Lit err]) errs s)\<lparr>logContainer := x\<rparr> = s\<lparr>logContainer := x\<rparr>"
  by (induction errs arbitrary: s) (simp_all add: addLog_def)

lemma fold_addLog_fields:
  "isRunning (fold (\<lambda>err. addLog l [Lit err]) errs s) = isRunning s"
  "notifications (fold (\<lambda>err. addLog l [Lit err]) errs s) = notifications s"
  "start_requests (fold (\<lambda>err. addLog l [Lit err]) errs s) = start_requests s"
  by (induction errs arbitrary: s) (simp_all add: addLog_def)

lemma validateConfig_rejects:
  assumes "repoUrl (form s) = [] \<or> problemStatement (form s) = [] \<or> llmApiKey (form s) = []"
  shows "validateConfig s =
     (False,
      showNotification (cross_mark @ '' Configuration errors. Check log.'') ''error''
        (fold (\<lambda>err. addLog (JStr ''error'') [Lit err]) (validation_errors (form s)) s))"
  using assms by (auto simp: validateConfig_def gatherConfig_def validation_errors_def Let_def)

lemma validateConfig_accepts:
  assumes "\<not> (repoUrl (form s) = [] \<or> problemStatement (form s) = [] \<or> llmApiKey (form s) = [])"
  shows "validateConfig s = (True, s)"
  using assms by (auto simp: validateConfig_def gatherConfig_def validation_errors_def Let_def)

lemma rejected_state_same:
  "(showNotification m t (fold (\<lambda>err. addLog l [Lit err]) errs s))
      \<lparr>logContainer := logContainer s, notifications := notifications s\<rparr> = s"
proof -
  have "(showNotification m t (fold (\<lambda>err. addLog l [Lit err]) errs s))
          \<lparr>logContainer := logContainer s, notifications := notifications s\<rparr> =
        ((fold (\<lambda>err. addLog l [Lit err]) errs s)\<lparr>logContainer := logContainer s\<rparr>)
          \<lparr>notifications := notifications s\<rparr>"
    by (simp add: showNotification_def)
  also have "\<dots> = s" by (simp add: fold_addLog_log)
  finally show ?thesis .
qed

lemma rejected_fields:
  "isRunning (showNotification m t (fold (\<lambda>err. addLog l [Lit err]) errs s)) = isRunning s"
  "notifications (showNotification m t (fold (\<lambda>err. addLog l [Lit err]) errs s)) =
     notifications s @ [(m, t)]"
  "start_requests (showNotification m t (fold (\<lambda>err. addLog l [Lit err]) errs s)) =
     start_requests s"
  by (simp_all add: showNotification_def fold_addLog_fields)

text \<open>
  C4. \<open>startAgent()\<close> on a running session never reaches the code that creates a
  session: the outcome is one of the two early returns, no start request is sent, and
  the state is the one before the call but for what the rejection itself displays (log
  lines, a notification). Nothing is kept for later: the state has no other part in which
  a request could wait. With a valid form the only change is the notification that the
  agent is already running.
\<close>

theorem start_rejected_while_running:
  assumes "isRunning s"
  shows "fst (startAgent_begin s) \<noteq> StartRequested \<and>
         isRunning (snd (startAgent_begin s)) \<and>
         start_requests (snd (startAgent_begin s)) = start_requests s \<and>
         (snd (startAgent_begin s))
           \<lparr>logContainer := logContainer s, notifications := notifications s\<rparr> = s \<and>
         (validation_errors (form s) = [] \<longrightarrow>
            startAgent_begin s =
              (AlreadyRunning,
               s\<lparr>notifications := notifications s @
                     [(warning_sign @ '' Agent is already running'', ''warning'')]\<rparr>))"
proof (cases "repoUrl (form s) = [] \<or> problemStatement (form s) = [] \<or> llmApiKey (form s) = []")
  case True
  then have "validation_errors (form s) \<noteq> []" by (auto simp: validation_errors_def)
  then show ?thesis
    using assms
    by (simp add: startAgent_begin_def validateConfig_rejects [OF True] rejected_state_same
          rejected_fields)
next
  case False
  then show ?thesis
    using assms
    by (simp add: startAgent_begin_def validateConfig_accepts [OF False] showNotification_def)
qed

theorem start_rejected_while_running_witness:
  "isRunning live_session \<and> validation_errors (form live_session) = [] \<and>
   fst (startAgent_begin live_session) = AlreadyRunning \<and>
   isRunning (snd (startAgent_begin live_session))"
  using start_rejected_while_running [of live_session]
  by (simp add: live_session_fields)

text \<open>
  C5. When the repository URL, the problem statement or the API key of the form is
  empty, \<open>startAgent()\<close> takes the validation return: no session is created (the state
  is the one before the call but for the logged errors and the notification, so
  \<open>isRunning\<close>, \<open>config\<close>, the timer, the intervals, the sockets and the requests in
  flight are untouched), and on a page that was idle a following \<open>stopAgent()\<close> does
  nothing.
\<close>

theorem invalid_config_creates_no_session:
  assumes "repoUrl (form s) = [] \<or> problemStatement (form s) = [] \<or> llmApiKey (form s) = []"
  shows "fst (startAgent_begin s) = ValidationFailed \<and>
         isRunning (snd (startAgent_begin s)) = isRunning s \<and>
         (snd (startAgent_begin s))
           \<lparr>logContainer := logContainer s, notifications := notifications s\<rparr> = s \<and>
         (\<not> isRunning s \<longrightarrow>
            stopAgent_begin (snd (startAgent_begin s)) = (NotRunning, snd (startAgent_begin s)))"
  by (simp add: startAgent_begin_def validateConfig_rejects [OF assms] rejected_state_same
        rejected_fields stopAgent_begin_def)

theorem invalid_config_creates_no_session_witness:
  "repoUrl (form (loaded_page empty_form)) = [] \<and>
   \<not> isRunning (loaded_page empty_form) \<and>
   fst (startAgent_begin (loaded_page empty_form)) = ValidationFailed \<and>
   \<not> isRunning (snd (startAgent_begin (loaded_page empty_form))) \<and>
   stopAgent_begin (snd (startAgent_begin (loaded_page empty_form))) =
     (NotRunning, snd (startAgent_begin (loaded_page empty_form)))"
  using invalid_config_creates_no_session [of "loaded_page empty_form"]
  by (simp add: loaded_page_fields empty_form_fields)

text \<open>
  C10. \<open>startAgent()\<close> validates before it looks at \<open>isRunning\<close>: on a running
  session whose form misses a required field the outcome is the validation failure, the
  notification shown is the one about configuration errors (not the one about a running
  agent), and the session is as before but for that report.
\<close>

theorem validation_precedes_running_check:
  assumes "isRunning s"
      and "repoUrl (form s) = [] \<or> problemStatement (form s) = [] \<or> llmApiKey (form s) = []"
  shows "fst (startAgent_begin s) = ValidationFailed \<and>
         isRunning (snd (startAgent_begin s)) \<and>
         notifications (snd (startAgent_begin s)) =
           notifications s @ [(cross_mark @ '' Configuration errors. Check log.'', ''error'')] \<and>
         (snd (startAgent_begin s))
           \<lparr>logContainer := logContainer s, notifications := notifications s\<rparr> = s"
  using assms(1)
  by (simp add: startAgent_begin_def validateConfig_rejects [OF assms(2)] rejected_state_same
        rejected_fields)

theorem validation_precedes_running_check_witness:
  "isRunning (live_session\<lparr>form := empty_form\<rparr>) \<and>
   llmApiKey (form (live_session\<lparr>form := empty_form\<rparr>)) = [] \<and>
   fst (startAgent_begin (live_session\<lparr>form := empty_form\<rparr>)) = ValidationFailed \<and>
   isRunning (snd (startAgent_begin (live_session\<lparr>form := empty_form\<rparr>)))"
  using validation_precedes_running_check [of "live_session\<lparr>form := empty_form\<rparr>"]
  by (simp add: live_session_fields empty_form_fields)

subsection \<open>Terminal events\<close>

text \<open>
  C9, as stated, fails: the claim has \<open>complete\<close> ignored unless the session is running.
  Neither \<open>handleWebSocketMessage\<close> nor \<open>handleTaskComplete\<close> reads \<open>isRunning\<close>.
  Here \<open>stopAgent()\<close> follows \<open>startAgent()\<close> and its request ends first; the answer
  to the start request then connects the socket on a session that is not running, and
  the \<open>complete\<close> frame that arrives is handled in full: the notification is shown.
\<close>

theorem complete_handled_when_not_running:
  "map_option isRunning
     (run [Start, Stop, StopSettled True, StartSettled task_response False]
        (loaded_page filled_form)) = Some False \<and>
   map_option notifications
     (run [Start, Stop, StopSettled True, StartSettled task_response False]
        (loaded_page filled_form)) = Some [] \<and>
   map_option notifications
     (run [Start, Stop, StopSettled True, StartSettled task_response False,
           SocketMessage 2 complete_frame]
        (loaded_page filled_form)) = Some [completed]"
  by (simp add: sample_defs)

lemma cleanupAfterRun_running: "cleanupAfterRun (s\<lparr>isRunning := b\<rparr>) = cleanupAfterRun s"
  by (simp add: cleanupAfterRun_def Let_def)

lemma addLog_running: "addLog l m (s\<lparr>isRunning := b\<rparr>) = (addLog l m s)\<lparr>isRunning := b\<rparr>"
  by (simp add: addLog_def)

lemma handleTaskComplete_running:
  assumes "stringable (get c ''success'')" and "stringable (get c ''time_taken'')"
  shows "handleTaskComplete c (s\<lparr>isRunning := b\<rparr>) = handleTaskComplete c s"
  using assms
  by (simp add: handleTaskComplete_def Let_def addLog_running cleanupAfterRun_running)

text \<open>
  C9, amended: terminal events are acted on whether the session is running or not; no
  handler reads \<open>isRunning\<close>. A \<open>complete\<close> event whose \<open>success\<close> and
  \<open>time_taken\<close> convert to strings is handled in full, and with the same outcome
  for a session that is running and for one that is not: three log lines, then
  \<open>cleanupAfterRun\<close> (not running; the interval of the timer cleared and
  \<open>close()\<close> called on the socket, if there is one; both fields \<open>null\<close>; the
  buttons and the status reset; ``Agent stopped'' logged), the notification and the
  results tab. An \<open>error\<close> event whose \<open>message\<close> converts to a string appends it
  to the log and changes nothing else, \<open>isRunning\<close> included. (A value converts
  unless it is an object with a property \<open>toString\<close>, or an array that holds one:
  \<^const>\<open>stringable\<close>.)
\<close>

theorem terminal_events_not_gated:
  "(get c ''type'' = JStr ''complete'' \<longrightarrow>
    stringable (get c ''success'') \<longrightarrow> stringable (get c ''time_taken'') \<longrightarrow>
      handleWebSocketMessage (JObj c) (s\<lparr>isRunning := b\<rparr>) =
        handleWebSocketMessage (JObj c) s \<and>
      (\<exists>s'. handleWebSocketMessage (JObj c) s = Inr s' \<and>
         \<not> isRunning s' \<and> timerInterval s' = None \<and> websocket s' = None \<and>
         intervals s' =
           intervals (case timerInterval s of None \<Rightarrow> s | Some h \<Rightarrow> clearInterval h s) \<and>
         sockets s' = sockets (case websocket s of None \<Rightarrow> s | Some w \<Rightarrow> close w s) \<and>
         startBtn_disabled s' = False \<and> stopBtn_disabled s' = True \<and>
         pauseBtn_disabled s' = True \<and> statusText s' = ''Ready'' \<and>
         activeTab s' = ''results'' \<and>
         notifications s' = notifications s @ [completed] \<and>
         recent 4 (logContainer s') =
           [(clock s, JStr ''success'', [Lit (check_mark @ '' Task completed!'')]),
            (clock s, JStr ''info'', [Lit ''Success: '', Interp (get c ''success'')]),
            (clock s, JStr ''info'',
               [Lit ''Time: '', Interp (get c ''time_taken''), Lit ''s'']),
            (clock s, JStr ''info'', [Lit ''Agent stopped''])])) \<and>
   (get e ''type'' = JStr ''error'' \<longrightarrow> stringable (get e ''message'') \<longrightarrow>
      handleWebSocketMessage (JObj e) s =
        Inr (s\<lparr>logContainer :=
                 trim_log (logContainer s @
                   [(clock s, JStr ''error'', as_text (get e ''message''))])\<rparr>))"
proof -
  have complete: "handleWebSocketMessage (JObj c) s' = handleTaskComplete c s'"
    if "get c ''type'' = JStr ''complete''" for s'
    using that by (simp add: handleWebSocketMessage_def property_def)
  have first: "handleWebSocketMessage (JObj c) (s\<lparr>isRunning := b\<rparr>) =
                 handleWebSocketMessage (JObj c) s \<and>
      (\<exists>s'. handleWebSocketMessage (JObj c) s = Inr s' \<and>
         \<not> isRunning s' \<and> timerInterval s' = None \<and> websocket s' = None \<and>
         intervals s' =
           intervals (case timerInterval s of None \<Rightarrow> s | Some h \<Rightarrow> clearInterval h s) \<and>
         sockets s' = sockets (case websocket s of None \<Rightarrow> s | Some w \<Rightarrow> close w s) \<and>
         startBtn_disabled s' = False \<and> stopBtn_disabled s' = True \<and>
         pauseBtn_disabled s' = True \<and> statusText s' = ''Ready'' \<and>
         activeTab s' = ''results'' \<and>
         notifications s' = notifications s @ [completed] \<and>
         recent 4 (logContainer s') =
           [(clock s, JStr ''success'', [Lit (check_mark @ '' Task completed!'')]),
            (clock s, JStr ''info'', [Lit ''Success: '', Interp (get c ''success'')]),
            (clock s, JStr ''info'',
               [Lit ''Time: '', Interp (get c ''time_taken''), Lit ''s'']),
            (clock s, JStr ''info'', [Lit ''Agent stopped''])])"
    if t: "get c ''type'' = JStr ''complete''"
      and a: "stringable (get c ''success'')" and b: "stringable (get c ''time_taken'')"
    unfolding complete [OF t]
    using handleTaskComplete_running [OF a b] handleTaskComplete_returns [OF a b]
    by (rule conjI)
  have second: "handleWebSocketMessage (JObj e) s =
        Inr (s\<lparr>logContainer :=
                 trim_log (logContainer s @
                   [(clock s, JStr ''error'', as_text (get e ''message''))])\<rparr>)"
    if "get e ''type'' = JStr ''error''" and "stringable (get e ''message'')"
    using that
    by (simp add: handleWebSocketMessage_def property_def addLog_values_def addLog_def)
  from first second show ?thesis by blast
qed

theorem terminal_events_not_gated_witness:
  "get [(''type'', JStr ''complete''), (''success'', JBool False)] ''type'' = JStr ''complete'' \<and>
   stringable (get [(''type'', JStr ''complete''), (''success'', JBool False)] ''success'') \<and>
   stringable (get [(''type'', JStr ''complete''), (''success'', JBool False)] ''time_taken'') \<and>
   get [(''type'', JStr ''error''), (''message'', JStr ''boom'')] ''type'' = JStr ''error'' \<and>
   stringable (get [(''type'', JStr ''error''), (''message'', JStr ''boom'')] ''message'') \<and>
   \<not> isRunning late_session \<and>
   (\<exists>s'. handleWebSocketMessage
            (JObj [(''type'', JStr ''complete''), (''success'', JBool False)]) late_session =
            Inr s' \<and>
          notifications s' = [completed] \<and> sockets s' = [(2, True)]) \<and>
   handleWebSocketMessage (JObj [(''type'', JStr ''error''), (''message'', JStr ''boom'')])
     late_session =
     Inr (late_session
            \<lparr>logContainer :=
               trim_log (logContainer late_session @
                 [(clock late_session, JStr ''error'', [Interp (JStr ''boom'')])])\<rparr>)"
proof -
  have c: "get [(''type'', JStr ''complete''), (''success'', JBool False)] ''type'' =
             JStr ''complete''"
          "stringable (get [(''type'', JStr ''complete''), (''success'', JBool False)] ''success'')"
          "stringable (get [(''type'', JStr ''complete''), (''success'', JBool False)] ''time_taken'')"
    by (simp_all add: get_def)
  have e: "get [(''type'', JStr ''error''), (''message'', JStr ''boom'')] ''type'' = JStr ''error''"
          "stringable (get [(''type'', JStr ''error''), (''message'', JStr ''boom'')] ''message'')"
          "as_text (get [(''type'', JStr ''error''), (''message'', JStr ''boom'')] ''message'') =
             [Interp (JStr ''boom'')]"
    by (simp_all add: get_def)
  from terminal_events_not_gated
         [where c = "[(''type'', JStr ''complete''), (''success'', JBool False)]"
            and s = late_session and b = True
            and e = "[(''type'', JStr ''error''), (''message'', JStr ''boom'')]"] c e
  obtain s' where
    "handleWebSocketMessage
       (JObj [(''type'', JStr ''complete''), (''success'', JBool False)]) late_session = Inr s'"
    "notifications s' = notifications late_session @ [completed]"
    "sockets s' =
       sockets (case websocket late_session of None \<Rightarrow> late_session
                | Some w \<Rightarrow> close w late_session)"
    and err: "handleWebSocketMessage
       (JObj [(''type'', JStr ''error''), (''message'', JStr ''boom'')]) late_session =
     Inr (late_session
            \<lparr>logContainer :=
               trim_log (logContainer late_session @
                 [(clock late_session, JStr ''error'', [Interp (JStr ''boom'')])])\<rparr>)"
    by auto
  then show ?thesis
    using c e by (simp add: late_session_fields close_def)
qed

subsection \<open>The simulation\<close>

lemma map_of_set_closure:
  "map_of (map (\<lambda>e. if fst e = h then (h, c) else e) xs) h =
     (case map_of xs h of None \<Rightarrow> None | Some _ \<Rightarrow> Some c)"
  by (induction xs) auto

lemma map_of_filter_absent:
  "map_of xs h = None \<Longrightarrow> map_of (filter P xs) h = None"
  by (induction xs) (auto split: if_splits)

lemma map_of_cleared: "map_of (filter (\<lambda>e. fst e \<noteq> h) xs) h = None"
  by (induction xs) auto

lemma cleanupAfterRun_absent:
  "map_of (intervals s) h = None \<Longrightarrow> map_of (intervals (cleanupAfterRun s)) h = None"
  by (simp add: cleanupAfterRun_def Let_def clearInterval_def close_def updateStatus_def
        addLog_def map_of_filter_absent split: option.splits)

lemma released_absent:
  assumes "map_of (intervals m) h = None"
  shows "map_of (intervals (case timerInterval m of None \<Rightarrow> m | Some t \<Rightarrow> clearInterval t m)) h =
           None"
  using assms
  by (cases "timerInterval m") (simp_all add: clearInterval_def map_of_filter_absent)

lemma stringable_completion:
  "stringable (get [(''success'', JBool b), (''time_taken'', JNum t)] ''success'')"
  "stringable (get [(''success'', JBool b), (''time_taken'', JNum t)] ''time_taken'')"
  "get [(''success'', JBool b), (''time_taken'', JNum t)] ''success'' = JBool b"
  "get [(''success'', JBool b), (''time_taken'', JNum t)] ''time_taken'' = JNum t"
  by (simp_all add: get_def)

text \<open>A tick before the thirtieth, on a running session: one step further, nothing emitted.\<close>

lemma tick_running:
  assumes "isRunning s" and "map_of (intervals s) h = Some (Simulation p k)" and "k < 29"
  shows "isRunning (fire h r s)"
    and "\<exists>p'. map_of (intervals (fire h r s)) h = Some (Simulation p' (Suc k))"
    and "notifications (fire h r s) = notifications s"
    and "startTime (fire h r s) = startTime s"
    and "clock (fire h r s) = clock s"
  using assms
  by (simp_all add: fire_def simulation_tick_def Let_def set_closure_def map_of_set_closure
        updatePhase_element updateProgress_simulation)

text \<open>The thirtieth tick.\<close>

lemma tick_final:
  assumes "isRunning s" and "map_of (intervals s) h = Some (Simulation p 29)"
  shows "\<not> isRunning (fire h r s)"
    and "map_of (intervals (fire h r s)) h = None"
    and "notifications (fire h r s) = notifications s @ [completed]"
    and "recent 4 (logContainer (fire h r s)) =
           [(clock s, JStr ''success'', [Lit (check_mark @ '' Task completed!'')]),
            (clock s, JStr ''info'', [Lit ''Success: '', Interp (JBool True)]),
            (clock s, JStr ''info'',
               [Lit ''Time: '', Interp (JNum (of_int (elapsed_seconds s))), Lit ''s'']),
            (clock s, JStr ''info'', [Lit ''Agent stopped''])]"
proof -
  let ?event = "[(''success'', JBool True),
                 (''time_taken'', JNum (of_int (elapsed_seconds s)))]"
  let ?progress =
    "s\<lparr>patchesTried := [Interp (JNum 6)],
       progressFill := [Interp (JNum 100), Lit ''%'']\<rparr>"
  let ?mid = "clearInterval h
                (set_closure h (Simulation p 30)
                   (addLog (JStr ''info'') (as_text (element messages r)) ?progress))"
  have tick: "fire h r s =
                (case handleTaskComplete ?event ?mid of Inl (e, s') \<Rightarrow> s' | Inr s' \<Rightarrow> s')"
    using assms
    by (simp add: fire_def simulation_tick_def Let_def updateProgress_simulation
          elapsed_seconds_def phases_def)
  from handleTaskComplete_returns [OF stringable_completion(1,2), of True _ ?mid]
  obtain s' where ret: "handleTaskComplete ?event ?mid = Inr s'"
    and s': "\<not> isRunning s'"
      "intervals s' =
         intervals (case timerInterval ?mid of None \<Rightarrow> ?mid | Some t \<Rightarrow> clearInterval t ?mid)"
      "notifications s' = notifications ?mid @ [completed]"
      "recent 4 (logContainer s') =
         [(clock ?mid, JStr ''success'', [Lit (check_mark @ '' Task completed!'')]),
          (clock ?mid, JStr ''info'', [Lit ''Success: '', Interp (get ?event ''success'')]),
          (clock ?mid, JStr ''info'',
             [Lit ''Time: '', Interp (get ?event ''time_taken''), Lit ''s'']),
          (clock ?mid, JStr ''info'', [Lit ''Agent stopped''])]"
    by blast
  have fired: "fire h r s = s'" unfolding tick ret by simp
  have gone: "map_of (intervals ?mid) h = None"
    by (simp add: clearInterval_def map_of_cleared)
  have "map_of (intervals s') h = None"
    unfolding s'(2) by (rule released_absent [OF gone])
  with s' show "\<not> isRunning (fire h r s)"
    and "map_of (intervals (fire h r s)) h = None"
    and "notifications (fire h r s) = notifications s @ [completed]"
    and "recent 4 (logContainer (fire h r s)) =
           [(clock s, JStr ''success'', [Lit (check_mark @ '' Task completed!'')]),
            (clock s, JStr ''info'', [Lit ''Success: '', Interp (JBool True)]),
            (clock s, JStr ''info'',
               [Lit ''Time: '', Interp (JNum (of_int (elapsed_seconds s))), Lit ''s'']),
            (clock s, JStr ''info'', [Lit ''Agent stopped''])]"
    unfolding fired by (simp_all add: stringable_completion)
qed

lemma ticks_append: "ticks h (xs @ ys) s = ticks h ys (ticks h xs s)"
  by (induction xs arbitrary: s) auto

lemma ticks_running:
  assumes "isRunning s" and "map_of (intervals s) h = Some (Simulation p k)"
      and "k + length ts \<le> 29"
  shows "isRunning (ticks h ts s) \<and>
         (\<exists>p'. map_of (intervals (ticks h ts s)) h = Some (Simulation p' (k + length ts))) \<and>
         notifications (ticks h ts s) = notifications s \<and>
         startTime (ticks h ts s) = startTime s \<and>
         clock (ticks h ts s) = clock s + int (sum_list (map fst ts))"
  using assms
proof (induction ts arbitrary: s p k)
  case Nil
  then show ?case by simp
next
  case (Cons t ts)
  obtain ms r where t: "t = (ms, r)" by (cases t)
  let ?s1 = "s\<lparr>clock := clock s + int ms\<rparr>"
  let ?s2 = "fire h r ?s1"
  have run1: "isRunning ?s1" and iv1: "map_of (intervals ?s1) h = Some (Simulation p k)"
    using Cons.prems by simp_all
  have k: "k < 29" using Cons.prems by simp
  from tick_running [OF run1 iv1 k, of r]
  obtain p' where run2: "isRunning ?s2"
    and iv2: "map_of (intervals ?s2) h = Some (Simulation p' (Suc k))"
    and rest: "notifications ?s2 = notifications s" "startTime ?s2 = startTime s"
      "clock ?s2 = clock s + int ms"
    by auto
  have len: "Suc k + length ts \<le> 29" using Cons.prems by simp
  from Cons.IH [OF run2 iv2 len] rest t show ?case by simp
qed

text \<open>
  C7, as stated, fails in its last part: the claim has the output reproducible for a
  fixed seed. \<open>runSimulation\<close> takes no seed; the log line of every even tick is drawn
  with \<open>Math.random()\<close>. Two runs from the same page, ticking at the same times, differ
  in their logs as soon as the draws differ.
\<close>

theorem simulation_log_depends_on_draws:
  "map_option logContainer
     (run [Start, StartSettled (NetworkFailure ''Failed to fetch'') False,
           Elapse 1000, Fire 2 0, Elapse 1000, Fire 2 0] (loaded_page filled_form)) \<noteq>
   map_option logContainer
     (run [Start, StartSettled (NetworkFailure ''Failed to fetch'') False,
           Elapse 1000, Fire 2 0, Elapse 1000, Fire 2 1] (loaded_page filled_form))"
  by (simp add: sample_defs phases_def messages_def)

text \<open>
  C7, amended: the simulation, started on a running session and left alone, ends at its
  thirtieth tick, whatever the times of the ticks and the random draws. After each of
  the first 29 ticks the session is running, the interval is live and no completion has
  been shown. The thirtieth tick clears the interval and delivers one \<open>complete\<close> event
  to \<open>handleTaskComplete\<close>: the session is no longer running, exactly one completion
  notification has been added, and the log ends with the four lines of the completion,
  which show \<open>success = true\<close> and \<open>time_taken\<close> equal to the milliseconds from
  \<open>startTime\<close> to that tick, divided by 1000 and floored. The log lines of the even
  ticks depend on the draws of \<open>Math.random()\<close>, which has no seed.
\<close>

theorem simulation_completes_after_30_ticks:
  assumes "isRunning s" and "map_of (intervals s) h = Some (Simulation 0 0)"
      and "length ts = 30"
  shows "(\<forall>n<30. isRunning (ticks h (take n ts) s) \<and>
                  map_of (intervals (ticks h (take n ts) s)) h \<noteq> None \<and>
                  notifications (ticks h (take n ts) s) = notifications s) \<and>
         \<not> isRunning (ticks h ts s) \<and>
         map_of (intervals (ticks h ts s)) h = None \<and>
         notifications (ticks h ts s) = notifications s @ [completed] \<and>
         recent 4 (logContainer (ticks h ts s)) =
           (let now = clock s + int (sum_list (map fst ts)) in
            [(now, JStr ''success'', [Lit (check_mark @ '' Task completed!'')]),
             (now, JStr ''info'', [Lit ''Success: '', Interp (JBool True)]),
             (now, JStr ''info'',
                [Lit ''Time: '',
                 Interp (JNum (of_int
                   ((now - (case startTime s of None \<Rightarrow> 0 | Some t \<Rightarrow> t)) div 1000))),
                 Lit ''s'']),
             (now, JStr ''info'', [Lit ''Agent stopped''])])"
proof -
  have before: "isRunning (ticks h (take n ts) s) \<and>
                map_of (intervals (ticks h (take n ts) s)) h \<noteq> None \<and>
                notifications (ticks h (take n ts) s) = notifications s" if "n < 30" for n
  proof -
    have "0 + length (take n ts) \<le> 29" using that assms(3) by simp
    from ticks_running [OF assms(1,2) this] show ?thesis by auto
  qed
  have "ts \<noteq> []" using assms(3) by auto
  then have split: "ts = butlast ts @ [last ts]" by simp
  obtain ms r where l: "last ts = (ms, r)" by (cases "last ts")
  let ?mid = "ticks h (butlast ts) s"
  let ?mid' = "?mid\<lparr>clock := clock ?mid + int ms\<rparr>"
  have "0 + length (butlast ts) \<le> 29" using assms(3) by simp
  from ticks_running [OF assms(1,2) this] assms(3)
  obtain p' where mid: "isRunning ?mid" "map_of (intervals ?mid) h = Some (Simulation p' 29)"
    "notifications ?mid = notifications s" "startTime ?mid = startTime s"
    "clock ?mid = clock s + int (sum_list (map fst (butlast ts)))"
    by auto
  have final: "ticks h ts s = fire h r ?mid'"
    by (subst split) (simp add: ticks_append l)
  have run': "isRunning ?mid'" and iv': "map_of (intervals ?mid') h = Some (Simulation p' 29)"
    using mid by simp_all
  have "sum_list (map fst ts) = sum_list (map fst (butlast ts)) + ms"
    by (subst split) (simp add: l)
  then have now: "clock ?mid' = clock s + int (sum_list (map fst ts))"
    using mid by simp
  have el: "elapsed_seconds ?mid' =
              (clock s + int (sum_list (map fst ts)) -
               (case startTime s of None \<Rightarrow> 0 | Some t \<Rightarrow> t)) div 1000"
    unfolding elapsed_seconds_def now using mid(4) by simp
  from tick_final [OF run' iv', of r] before show ?thesis
    unfolding final now el using mid(3) by (simp add: Let_def)
qed

theorem simulation_completes_after_30_ticks_witness:
  "isRunning simulated_session \<and>
   map_of (intervals simulated_session) 2 = Some (Simulation 0 0) \<and>
   length (replicate 30 (1000 :: nat, 0 :: nat)) = 30 \<and>
   isRunning (ticks 2 (take 29 (replicate 30 (1000, 0))) simulated_session) \<and>
   \<not> isRunning (ticks 2 (replicate 30 (1000, 0)) simulated_session) \<and>
   map_of (intervals (ticks 2 (replicate 30 (1000, 0)) simulated_session)) 2 = None"
proof -
  have len: "length (replicate 30 (1000 :: nat, 0 :: nat)) = 30" by simp
  note t = simulation_completes_after_30_ticks [OF simulated_session_fields len]
  have "(29 :: nat) < 30" by simp
  with t have "isRunning (ticks 2 (take 29 (replicate 30 (1000, 0))) simulated_session)"
    by blast
  with t len show ?thesis by (simp add: simulated_session_fields)
qed

subsection \<open>Cancellation\<close>

lemma fire_not_running:
  assumes "\<not> isRunning s"
  shows "\<not> isRunning (fire h r s)" "notifications (fire h r s) = notifications s"
    "logContainer (fire h r s) = logContainer s"
  using assms
  by (simp_all add: fire_def timer_tick_def simulation_tick_def Let_def
        split: option.splits interval.splits)

lemma run_timer_events_not_running:
  assumes "\<not> isRunning s" and "list_all timer_event es" and "run es s = Some s'"
  shows "\<not> isRunning s' \<and> notifications s' = notifications s \<and>
         logContainer s' = logContainer s"
  using assms
proof (induction es arbitrary: s)
  case Nil
  then show ?case by simp
next
  case (Cons e es)
  from Cons.prems(2) have te: "timer_event e" and rest: "list_all timer_event es" by simp_all
  from Cons.prems(3) obtain s1 where s1: "step e s = Some s1" and r: "run es s1 = Some s'"
    by (auto split: option.splits)
  have "\<not> isRunning s1 \<and> notifications s1 = notifications s \<and> logContainer s1 = logContainer s"
  proof (cases e)
    case (Elapse ms)
    with s1 Cons.prems(1) show ?thesis by auto
  next
    case (Fire h r)
    with s1 have "s1 = fire h r s" by (auto split: if_splits)
    with fire_not_running [OF Cons.prems(1)] show ?thesis by simp
  qed (use te in \<open>simp_all add: timer_event_def\<close>)
  with Cons.IH [OF _ rest r] show ?case by simp
qed

text \<open>
  C8, as stated, fails: the claim has \<open>start()\<close> followed at once by \<open>stop()\<close> never
  emit \<open>complete\<close>. \<open>stopAgent()\<close> clears \<open>isRunning\<close> only when its request has
  ended, and until then the session takes events as usual. Here the backend answers the
  start request and sends \<open>complete\<close> while the stop request is still in flight: the
  completion is handled and its notification shown.
\<close>

theorem complete_after_immediate_stop:
  "map_option stop_requests
     (run [Start, Stop, StartSettled task_response False, SocketMessage 2 complete_frame]
        (loaded_page filled_form)) = Some 1 \<and>
   map_option notifications
     (run [Start, Stop, StartSettled task_response False, SocketMessage 2 complete_frame]
        (loaded_page filled_form)) = Some [completed]"
  by (simp add: sample_defs)

text \<open>
  C8, amended: once the stop has finished (\<open>cleanupAfterRun\<close> has run and the session
  is not running), the timers emit nothing. A tick of the simulation on a session that
  is not running only clears its own interval, so a fallback simulation registered
  before or after the stop finished is discarded at its next tick, at its first tick
  when the stop followed the start at once; and no sequence of timer events lets a
  completion appear: the session stays not running and neither the log nor the
  notifications change.
\<close>

theorem stopped_simulation_emits_nothing:
  assumes "\<not> isRunning s"
  shows "(map_of (intervals s) h = Some (Simulation p k) \<longrightarrow>
            step (Fire h r) s = Some (clearInterval h s)) \<and>
         (list_all timer_event es \<longrightarrow> run es s = Some s' \<longrightarrow>
            \<not> isRunning s' \<and> notifications s' = notifications s \<and>
            logContainer s' = logContainer s)"
  using assms run_timer_events_not_running [OF assms]
  by (auto simp: fire_def simulation_tick_def)

theorem stopped_simulation_emits_nothing_witness:
  "\<not> isRunning cancelled_session \<and>
   map_of (intervals cancelled_session) 2 = Some (Simulation 0 0) \<and>
   step (Fire 2 0) cancelled_session = Some (clearInterval 2 cancelled_session) \<and>
   list_all timer_event [Elapse 1000, Fire 2 0] \<and>
   run [Elapse 1000, Fire 2 0] cancelled_session =
     Some (clearInterval 2 (cancelled_session\<lparr>clock := clock cancelled_session + 1000\<rparr>)) \<and>
   notifications (clearInterval 2 (cancelled_session\<lparr>clock := clock cancelled_session + 1000\<rparr>)) = []"
proof -
  have ev: "list_all timer_event [Elapse 1000, Fire 2 0]"
    by (simp add: timer_event_def)
  have r: "run [Elapse 1000, Fire 2 0] cancelled_session =
     Some (clearInterval 2 (cancelled_session\<lparr>clock := clock cancelled_session + 1000\<rparr>))"
    by (simp add: fire_def simulation_tick_def cancelled_session_fields)
  from stopped_simulation_emits_nothing
         [OF cancelled_session_fields(1), of 2 0 0 0 "[Elapse 1000, Fire 2 0]"
            "clearInterval 2 (cancelled_session\<lparr>clock := clock cancelled_session + 1000\<rparr>)"]
       ev r
  show ?thesis by (simp add: cancelled_session_fields)
qed

end
